theory Spec2Isabelle
  imports Complex_Main "HOL-Library.Sublist"
begin

section \<open>Python strings and numbers\<close>




text \<open>
  A Python number is an \<open>int\<close> or a \<open>float\<close>. A \<open>float\<close> is a finite float, modelled by
  the real number it stands for; \<open>x // y\<close> and \<open>x % y\<close> on floats are the floor of the
  quotient and the remainder that goes with it, which the float operations return
  exactly for floats of magnitude below \<open>2^53\<close> divided by 3600 or 60, and \<open>int(x)\<close>
  cuts the fraction off. Infinities and NaN are not modelled.
\<close>

datatype number = PyInt int | PyFloat real






definition is_space :: "char \<Rightarrow> bool" where
  \<comment> \<open>the code points below 256 that \<open>str.isspace\<close> accepts and \<open>str.strip\<close> removes\<close>
  "is_space c =
     (c \<in> set [CHR 0x09, CHR 0x0A, CHR 0x0B, CHR 0x0C, CHR 0x0D, CHR 0x1C, CHR 0x1D,
                CHR 0x1E, CHR 0x1F, CHR 0x20, CHR 0x85, CHR 0xA0])"

definition strip :: "string \<Rightarrow> string" where
  \<comment> \<open>\<open>s.strip()\<close>\<close>
  "strip s = rev (dropWhile is_space (rev (dropWhile is_space s)))"

definition lower_char :: "char \<Rightarrow> char" where
  \<comment> \<open>the upper-case letters below 256 are A to Z and U+00C0 to U+00DE without U+00D7\<close>
  "lower_char c =
     (let n = (of_char c :: nat)
      in if (65 \<le> n \<and> n \<le> 90) \<or> (192 \<le> n \<and> n \<le> 222 \<and> n \<noteq> 215)
         then char_of (n + 32) else c)"

definition lower :: "string \<Rightarrow> string" where
  \<comment> \<open>\<open>s.lower()\<close>\<close>
  "lower s = map lower_char s"

definition upper_char :: "char \<Rightarrow> char" where
  \<comment> \<open>\<open>str.upper\<close> on one ASCII character; the code applies it to the task names only\<close>
  "upper_char c =
     (let n = (of_char c :: nat)
      in if 97 \<le> n \<and> n \<le> 122 then char_of (n - 32) else c)"

definition upper :: "string \<Rightarrow> string" where
  "upper s = map upper_char s"

fun join :: "string \<Rightarrow> string list \<Rightarrow> string" where
  \<comment> \<open>\<open>sep.join(xs)\<close>\<close>
  "join sep [] = []"
| "join sep [x] = x"
| "join sep (x # y # ys) = x @ sep @ join sep (y # ys)"

fun doubled_space :: "string \<Rightarrow> bool" where
  \<comment> \<open>two adjacent space characters occur in the string\<close>
  "doubled_space (c # d # r) = ((c = CHR '' '' \<and> d = CHR '' '') \<or> doubled_space (d # r))"
| "doubled_space [c] = False"
| "doubled_space [] = False"

definition rfind :: "char \<Rightarrow> string \<Rightarrow> int" where
  \<comment> \<open>\<open>s.rfind(c)\<close>: the last index of \<open>c\<close>, or \<open>-1\<close>\<close>
  "rfind c s =
     (case filter (\<lambda>i. s ! i = c) (rev [0..<length s]) of
        [] \<Rightarrow> - 1
      | i # _ \<Rightarrow> int i)"

definition splitext :: "string \<Rightarrow> string \<times> string" where
  \<comment> \<open>\<open>os.path.splitext\<close> of posixpath: split at the last dot after the last slash,
      unless only dots come before it in the file name\<close>
  "splitext p =
     (let sepIndex = rfind CHR ''/'' p;
          dotIndex = rfind CHR ''.'' p
      in if dotIndex > sepIndex \<and>
            filter (\<lambda>c. c \<noteq> CHR ''.'')
              (take (nat (dotIndex - (sepIndex + 1))) (drop (nat (sepIndex + 1)) p)) \<noteq> []
         then (take (nat dotIndex) p, drop (nat dotIndex) p)
         else (p, []))"

section \<open>Exceptions\<close>

text \<open>
  A value of \<open>exn\<close> is an instance of a subclass of Python's \<open>Exception\<close>: its class and
  the text of \<open>str(e)\<close>. A computation that may raise has a result of type \<open>exn + 'a\<close>,
  \<open>Inl e\<close> when \<open>e\<close> propagates to the caller. What is raised outside \<open>Exception\<close>
  (a keyboard interrupt, \<open>sys.exit\<close>) is no error of a backend and is not an \<open>exn\<close>.
\<close>

datatype exn_class = CalledProcessError | TimeoutExpired | FileNotFoundError | OtherException

datatype exn = Exn exn_class string

fun class_of :: "exn \<Rightarrow> exn_class" where
  "class_of (Exn c m) = c"

fun str_of_exn :: "exn \<Rightarrow> string" where
  "str_of_exn (Exn c m) = m"

section \<open>MIME classification: \<open>get_mime_type\<close>\<close>

text \<open>
  \<open>mimetypes.guess_type\<close> reads the tables of the host system; it is a parameter
  \<open>guess_type\<close>, giving the first component of the pair it returns (\<open>None\<close> or a type).
  The function is defined three times in the repository, once per file.
\<close>

definition mime_map :: "(string \<times> string) list" where
  "mime_map =
     [(''.mp3'', ''audio/mpeg''),
      (''.wav'', ''audio/wav''),
      (''.m4a'', ''audio/mp4''),
      (''.aac'', ''audio/aac''),
      (''.flac'', ''audio/flac''),
      (''.ogg'', ''audio/ogg'')]"

definition get_mime_type :: "(string \<Rightarrow> string option) \<Rightarrow> string \<Rightarrow> string" where
  \<comment> \<open>transcribe\_with\_gemini.py\<close>
  "get_mime_type guess_type audio_path =
     (case guess_type audio_path of
        Some mime_type \<Rightarrow>
          if mime_type \<noteq> [] \<and> prefix ''audio/'' mime_type then mime_type
          else (let ext = lower (snd (splitext audio_path))
                in case map_of mime_map ext of Some m \<Rightarrow> m | None \<Rightarrow> ''audio/wav'')
      | None \<Rightarrow>
          (let ext = lower (snd (splitext audio_path))
           in case map_of mime_map ext of Some m \<Rightarrow> m | None \<Rightarrow> ''audio/wav''))"

definition get_mime_type_gca :: "(string \<Rightarrow> string option) \<Rightarrow> string \<Rightarrow> string" where
  \<comment> \<open>gemini\_claude\_app.py\<close>
  "get_mime_type_gca guess_type audio_path =
     (case guess_type audio_path of
        Some mime_type \<Rightarrow>
          if mime_type \<noteq> [] \<and> prefix ''audio/'' mime_type then mime_type
          else (let ext = lower (snd (splitext audio_path))
                in case map_of mime_map ext of Some m \<Rightarrow> m | None \<Rightarrow> ''audio/wav'')
      | None \<Rightarrow>
          (let ext = lower (snd (splitext audio_path))
           in case map_of mime_map ext of Some m \<Rightarrow> m | None \<Rightarrow> ''audio/wav''))"

definition get_mime_type_ga :: "(string \<Rightarrow> string option) \<Rightarrow> string \<Rightarrow> string" where
  \<comment> \<open>gemini\_app.py\<close>
  "get_mime_type_ga guess_type audio_path =
     (case guess_type audio_path of
        Some mime_type \<Rightarrow>
          if mime_type \<noteq> [] \<and> prefix ''audio/'' mime_type then mime_type
          else (let ext = lower (snd (splitext audio_path))
                in case map_of mime_map ext of Some m \<Rightarrow> m | None \<Rightarrow> ''audio/wav'')
      | None \<Rightarrow>
          (let ext = lower (snd (splitext audio_path))
           in case map_of mime_map ext of Some m \<Rightarrow> m | None \<Rightarrow> ''audio/wav''))"

section \<open>Remote transcription: \<open>transcribe_with_gemini\<close>\<close>

text \<open>
  The Gemini client library is outside the repository. Each call of it either raises or
  returns: \<open>GenerativeModel(name)\<close>, \<open>upload_file\<close> (returning the name of the uploaded
  file), \<open>generate_content\<close>, \<open>delete_file\<close>, and the \<open>text\<close> property of a response
  (the library raises when the response holds no text part). The remote store is the
  set of names of the files that are uploaded and not deleted.
\<close>

datatype part = Text string | File string

record response =
  response_text :: "exn + string"

record gemini_api =
  GenerativeModel :: "string \<Rightarrow> exn option"
  upload_file :: "string \<Rightarrow> string \<Rightarrow> exn + string"
  generate_content :: "string \<Rightarrow> part list \<Rightarrow> exn + response"
  delete_file :: "string \<Rightarrow> exn option"

definition transcribe_instruction :: string where
  "transcribe_instruction =
     ''Please transcribe this audio file accurately. Return only the transcribed text without any additional commentary or formatting.''"

definition transcribe_try ::
  "gemini_api \<Rightarrow> string \<Rightarrow> string \<Rightarrow> string \<Rightarrow> string set \<Rightarrow> (exn + string) \<times> string set" where
  \<comment> \<open>the body of the \<open>try\<close> block: the value it returns or the exception that
      leaves it, and the remote store at that point\<close>
  "transcribe_try api model_name audio_path mime_type remote =
     (case GenerativeModel api model_name of
        Some e \<Rightarrow> (Inl e, remote)
      | None \<Rightarrow>
          (case upload_file api audio_path mime_type of
             Inl e \<Rightarrow> (Inl e, remote)
           | Inr name \<Rightarrow>
               (case generate_content api model_name [Text transcribe_instruction, File name] of
                  Inl e \<Rightarrow> (Inl e, insert name remote)
                | Inr resp \<Rightarrow>
                    (case delete_file api name of
                       Some e \<Rightarrow> (Inl e, insert name remote)
                     | None \<Rightarrow> (response_text resp, insert name remote - {name})))))"

definition transcribe_with_gemini ::
  "gemini_api \<Rightarrow> (string \<Rightarrow> string option) \<Rightarrow> string \<Rightarrow> string set
     \<Rightarrow> (exn + string option) \<times> string set" where
  \<comment> \<open>transcribe\_with\_gemini.py: \<open>except Exception\<close> reports the error and returns
      \<open>None\<close>\<close>
  "transcribe_with_gemini api guess_type audio_path remote =
     (case transcribe_try api ''gemini-1.5-flash'' audio_path
             (get_mime_type guess_type audio_path) remote of
        (Inl e, remote') \<Rightarrow> (Inr None, remote')
      | (Inr t, remote') \<Rightarrow> (Inr (Some t), remote'))"

definition transcribe_with_gemini_gca ::
  "gemini_api \<Rightarrow> string \<Rightarrow> (string \<Rightarrow> string option) \<Rightarrow> string \<Rightarrow> string set
     \<Rightarrow> (exn + string option) \<times> string set" where
  \<comment> \<open>gemini\_claude\_app.py: the model name is the module constant \<open>GEMINI_MODEL\<close>,
      read from the environment\<close>
  "transcribe_with_gemini_gca api GEMINI_MODEL guess_type audio_path remote =
     (case transcribe_try api GEMINI_MODEL audio_path
             (get_mime_type_gca guess_type audio_path) remote of
        (Inl e, remote') \<Rightarrow> (Inr None, remote')
      | (Inr t, remote') \<Rightarrow> (Inr (Some t), remote'))"

section \<open>Text processing\<close>

text \<open>
  \<open>subprocess.run\<close> with \<open>capture_output=True, text=True\<close>: the process cannot be
  started or runs over its timeout (an exception), or it completes with a return code
  and its two captured streams. With \<open>check=True\<close> a non-zero return code raises
  \<open>CalledProcessError\<close>.
\<close>

record completed_process =
  returncode :: int
  stdout :: string
  stderr :: string

type_synonym subprocess = "string list \<Rightarrow> int option \<Rightarrow> exn + completed_process"

definition run_checked :: "subprocess \<Rightarrow> string list \<Rightarrow> int option \<Rightarrow> exn + completed_process" where
  \<comment> \<open>\<open>subprocess.run(argv, ..., check=True)\<close>\<close>
  "run_checked run argv timeout =
     (case run argv timeout of
        Inl e \<Rightarrow> Inl e
      | Inr r \<Rightarrow>
          if returncode r \<noteq> 0 then Inl (Exn CalledProcessError (stderr r)) else Inr r)"

definition summarize_prompt :: "string \<Rightarrow> string \<Rightarrow> string" where
  \<comment> \<open>transcribe\_with\_gemini.py, \<open>summarize_with_claude\<close>: the prompt\<close>
  "summarize_prompt text task =
     (if task = ''summarize'' then
        ''Please provide a concise summary of the following transcript:\<newline>\<newline>'' @ text
      else if task = ''translate'' then
        ''Please translate the following transcript to English:\<newline>\<newline>'' @ text
      else if task = ''analyze'' then
        ''Please analyze the key points and themes in the following transcript:\<newline>\<newline>'' @ text
      else ''Please '' @ task @ '' the following transcript:\<newline>\<newline>'' @ text)"

definition summarize_with_claude :: "subprocess \<Rightarrow> string \<Rightarrow> string \<Rightarrow> exn + string option" where
  \<comment> \<open>transcribe\_with\_gemini.py\<close>
  "summarize_with_claude run text task =
     (case run [''claude'', ''say'', summarize_prompt text task] None of
        Inl e \<Rightarrow> Inr None
      | Inr result \<Rightarrow>
          if returncode result = 0 then Inr (Some (strip (stdout result))) else Inr None)"

definition build_prompt :: "string \<Rightarrow> string \<Rightarrow> string \<Rightarrow> string" where
  \<comment> \<open>the prompt of \<open>process_with_claude\<close> in gemini\_claude\_app.py\<close>
  "build_prompt text task target_language =
     (if task = ''summarize'' then
        ''Please provide a concise summary of the following transcript in '' @ target_language
          @ '':\<newline>\<newline>'' @ text
      else if task = ''translate'' then
        ''Please translate the following transcript to '' @ target_language
          @ '':\<newline>\<newline>'' @ text
      else if task = ''analyze'' then
        ''Please analyze the key points and themes in the following transcript in ''
          @ target_language @ '':\<newline>\<newline>'' @ text
      else ''Please '' @ task @ '' the following transcript in '' @ target_language
          @ '':\<newline>\<newline>'' @ text)"

definition process_with_claude :: "subprocess \<Rightarrow> string \<Rightarrow> string \<Rightarrow> string \<Rightarrow> exn + string option" where
  \<comment> \<open>gemini\_claude\_app.py\<close>
  "process_with_claude run text task target_language =
     (case run [''claude'', ''--print'', build_prompt text task target_language] None of
        Inl e \<Rightarrow> Inr None
      | Inr result \<Rightarrow>
          if returncode result = 0 then Inr (Some (strip (stdout result))) else Inr None)"

definition build_prompt_ga :: "string \<Rightarrow> string \<Rightarrow> string \<Rightarrow> string" where
  \<comment> \<open>the prompt of \<open>process_with_gemini\<close> in gemini\_app.py\<close>
  "build_prompt_ga text task target_language =
     (if task = ''summarize'' then
        ''Please provide a concise summary of the following transcript in '' @ target_language
          @ '':\<newline>\<newline>'' @ text
      else if task = ''translate'' then
        ''Please translate the following transcript to '' @ target_language
          @ '':\<newline>\<newline>'' @ text
      else if task = ''analyze'' then
        ''Please analyze the key points and themes in the following transcript in ''
          @ target_language @ '':\<newline>\<newline>'' @ text
      else ''Please '' @ task @ '' the following transcript in '' @ target_language
          @ '':\<newline>\<newline>'' @ text)"

definition process_with_gemini :: "gemini_api \<Rightarrow> string \<Rightarrow> string \<Rightarrow> string \<Rightarrow> exn + string option" where
  \<comment> \<open>gemini\_app.py: the whole prompt is sent; an empty text is reported and gives
      \<open>None\<close>\<close>
  "process_with_gemini api text task target_language =
     (case GenerativeModel api ''gemini-2.0-flash'' of
        Some e \<Rightarrow> Inr None
      | None \<Rightarrow>
          (case generate_content api ''gemini-2.0-flash''
                  [Text (build_prompt_ga text task target_language)] of
             Inl e \<Rightarrow> Inr None
           | Inr resp \<Rightarrow>
               (case response_text resp of
                  Inl e \<Rightarrow> Inr None
                | Inr t \<Rightarrow> if t \<noteq> [] then Inr (Some (strip t)) else Inr None)))"

definition excerpt_prompt_yta :: "string \<Rightarrow> string \<Rightarrow> string" where
  \<comment> \<open>youtube\_transcribe\_app.py, \<open>summarize_with_claude\<close>: the prompt, with
      \<open>text[:2500]\<close>\<close>
  "excerpt_prompt_yta text language =
     (if language \<noteq> ''en'' then
        ''This is a transcription in '' @ language @ '' language. Please:\<newline>1. Identify the main topic\<newline>2. Provide a brief English summary (2-3 sentences)\<newline>3. List 3-5 key points\<newline>\<newline>Transcription (excerpt):\<newline>''
          @ take 2500 text
      else
        ''Please analyze this transcription and provide:\<newline>1. A concise summary (2-3 sentences)\<newline>2. Main topics discussed\<newline>3. Key takeaways (3-5 bullet points)\<newline>\<newline>Transcription (excerpt):\<newline>''
          @ take 2500 text)"

definition summarize_with_claude_yta :: "subprocess \<Rightarrow> string \<Rightarrow> string \<Rightarrow> exn + string option" where
  \<comment> \<open>youtube\_transcribe\_app.py: a bare \<open>except\<close> turns every exception, the
      timeout too, into \<open>None\<close>\<close>
  "summarize_with_claude_yta run text language =
     (case run [''claude'', excerpt_prompt_yta text language] (Some 30) of
        Inl e \<Rightarrow> Inr None
      | Inr result \<Rightarrow> if returncode result = 0 then Inr (Some (stdout result)) else Inr None)"

definition excerpt_prompt_tf :: "string \<Rightarrow> string \<Rightarrow> string" where
  \<comment> \<open>transcribe\_full.py, \<open>process_with_claude\<close>: the prompt, with \<open>text[:3000]\<close>\<close>
  "excerpt_prompt_tf text language =
     (if language \<noteq> ''en'' then
        ''This is a transcription in '' @ language @ '' language. Please:\<newline>1. Identify the main topic\<newline>2. Provide a brief English summary (2-3 sentences)\<newline>3. List 3-5 key points mentioned\<newline>\<newline>Transcription:\<newline>''
          @ take 3000 text
      else
        ''Please analyze this transcription and provide:\<newline>1. A concise summary (2-3 sentences)\<newline>2. Main topics discussed\<newline>3. Key takeaways (3-5 bullet points)\<newline>\<newline>Transcription:\<newline>''
          @ take 3000 text)"

definition process_with_claude_tf :: "subprocess \<Rightarrow> string \<Rightarrow> string \<Rightarrow> exn + string option" where
  \<comment> \<open>transcribe\_full.py\<close>
  "process_with_claude_tf run text language =
     (case run [''claude'', excerpt_prompt_tf text language] (Some 30) of
        Inl e \<Rightarrow> Inr None
      | Inr result \<Rightarrow> if returncode result = 0 then Inr (Some (stdout result)) else Inr None)"

definition excerpt_prompt_quick :: "string \<Rightarrow> string" where
  \<comment> \<open>quick\_transcribe.py, \<open>main\<close>: the prompt, with \<open>transcription[:4000]\<close>\<close>
  "excerpt_prompt_quick transcription =
     ''Summarize this transcription in 3-5 key points:\<newline>\<newline>'' @ take 4000 transcription"

definition process_with_claude_lt :: "subprocess \<Rightarrow> string \<Rightarrow> string \<Rightarrow> exn + string option" where
  \<comment> \<open>local\_transcribe.py: \<open>check=True\<close>, and only \<open>CalledProcessError\<close> is caught;
      the temporary copy of the text is written before and removed in \<open>finally\<close>\<close>
  "process_with_claude_lt run text prompt =
     (case run_checked run
             [''claude'', ''-m'', ''claude-3-haiku-20240307'', prompt @ ''\<newline>\<newline>'' @ text] None of
        Inl e \<Rightarrow> if class_of e = CalledProcessError then Inr None else Inl e
      | Inr result \<Rightarrow> Inr (Some (stdout result)))"

section \<open>Local transcription\<close>

text \<open>
  The speech-recognition model yields a finite sequence of segments and an \<open>info\<close> value
  with the detected language. The three functions below are the loops of the three
  scripts over the segments the model has emitted.
\<close>

record 't segment =
  seg_text :: string
  seg_start :: 't
  seg_end :: 't

record transcription_info =
  info_language :: string

definition transcribe_audio_tas :: "'t segment list \<Rightarrow> string" where
  \<comment> \<open>transcribe\_and\_summarize.py: returns the text only\<close>
  "transcribe_audio_tas segments =
     strip (fold (\<lambda>segment transcription. transcription @ seg_text segment @ '' '') segments [])"

definition transcribe_audio_yta ::
  "'t segment list \<Rightarrow> transcription_info \<Rightarrow> bool
     \<Rightarrow> (string \<times> string \<times> nat) \<times> (nat \<times> 't) list" where
  \<comment> \<open>youtube\_transcribe\_app.py: the returned triple, and the calls of
      \<open>progress_callback\<close> when one is given\<close>
  "transcribe_audio_yta segments info has_callback =
     (case fold (\<lambda>segment (transcription, segment_count, calls).
                   (transcription @ [strip (seg_text segment)],
                    segment_count + 1,
                    if has_callback \<and> (segment_count + 1) mod 5 = 0
                    then calls @ [(segment_count + 1, seg_end segment)] else calls))
             segments ([], 0, []) of
        (transcription, segment_count, calls) \<Rightarrow>
          ((join '' '' transcription, info_language info, segment_count), calls))"

definition transcribe_audio_quick :: "'t segment list \<Rightarrow> string" where
  \<comment> \<open>quick\_transcribe.py: returns the text only\<close>
  "transcribe_audio_quick segments =
     join '' '' (fold (\<lambda>segment transcription. transcription @ [seg_text segment]) segments [])"

section \<open>Fetching: \<open>download_youtube_audio\<close> and \<open>download_audio\<close>\<close>

function replace_from :: "string \<Rightarrow> string \<Rightarrow> string \<Rightarrow> string" where
  \<comment> \<open>the scan of \<open>str.replace\<close> for a non-empty \<open>old\<close>: at a match, write \<open>new\<close> and
      continue after the match\<close>
  "replace_from old new [] = []"
| "replace_from old new (c # cs) =
     (if old \<noteq> [] \<and> prefix old (c # cs)
      then new @ replace_from old new (drop (length old) (c # cs))
      else c # replace_from old new cs)"
  by pat_completeness auto
termination
  by (relation "measure (\<lambda>(old, new, s). length s)") auto

definition replace :: "string \<Rightarrow> string \<Rightarrow> string \<Rightarrow> string" where
  \<comment> \<open>\<open>s.replace(old, new)\<close>: every occurrence of \<open>old\<close>, from the left, without
      overlap; an empty \<open>old\<close> matches before every character and at the end\<close>
  "replace s old new =
     (if old = [] then new @ concat (map (\<lambda>c. c # new) s) else replace_from old new s)"

definition path_join :: "string \<Rightarrow> string \<Rightarrow> string" where
  \<comment> \<open>\<open>os.path.join(a, b)\<close> of posixpath\<close>
  "path_join a b =
     (if prefix ''/'' b then b
      else if a = [] \<or> suffix ''/'' a then a @ b
      else a @ ''/'' @ b)"

text \<open>
  \<open>os.makedirs\<close> with \<open>exist_ok=True\<close> is called before the \<open>try\<close>: it raises (when
  the path is a regular file, or may not be created) and the exception reaches the caller
  as it is, or it returns with the directory among the files that exist.
  The extraction library is outside the repository: \<open>extract_info\<close> downloads (it
  receives the output template and the files that exist, and returns the info
  dictionary and the files that exist afterwards, or raises), and \<open>prepare_filename\<close>
  gives the file name the library declares. A missing key of the dictionary is \<open>None\<close>.
  The progress hook only moves the progress bar and is left out. The files that exist
  do not change between the tests of \<open>os.path.exists\<close>.
\<close>

record info_dict =
  info_title :: "string option"
  info_duration :: "number option option"

record ydl =
  extract_info :: "string \<Rightarrow> string \<Rightarrow> string set \<Rightarrow> exn + info_dict \<times> string set"
  prepare_filename :: "string \<Rightarrow> info_dict \<Rightarrow> string"

definition download_youtube_audio ::
  "(string \<Rightarrow> string set \<Rightarrow> exn + string set) \<Rightarrow> ydl \<Rightarrow> string \<Rightarrow> string \<Rightarrow> string set
     \<Rightarrow> (exn + string \<times> string \<times> number option) \<times> string set" where
  \<comment> \<open>gemini\_claude\_app.py; \<open>makedirs\<close> is \<open>os.makedirs(..., exist_ok=True)\<close>, \<open>cwd\<close>
      is \<open>os.getcwd()\<close>, the last argument the files that exist\<close>
  "download_youtube_audio makedirs yt cwd youtube_url fs =
     (let download_dir = path_join cwd ''downloads''
      in case makedirs download_dir fs of
           Inl e \<Rightarrow> (Inl e, fs)
         | Inr fs0 \<Rightarrow>
             (let outtmpl = path_join download_dir ''%(title)s.%(ext)s''
              in case extract_info yt outtmpl youtube_url fs0 of
                   Inl e \<Rightarrow> (Inl (Exn OtherException (''Error: '' @ str_of_exn e)), fs0)
                 | Inr (info, fs1) \<Rightarrow>
                     (let video_title =
                            (case info_title info of None \<Rightarrow> ''Unknown'' | Some t \<Rightarrow> t);
                          duration =
                            (case info_duration info of None \<Rightarrow> Some (PyInt 0) | Some d \<Rightarrow> d);
                          declared = prepare_filename yt outtmpl info;
                          filename =
                            (if declared \<notin> fs1 \<and> replace declared ''.webm'' ''.m4a'' \<in> fs1
                             then replace declared ''.webm'' ''.m4a'' else declared)
                      in if filename \<in> fs1 then (Inr (filename, video_title, duration), fs1)
                         else (Inl (Exn OtherException (''Error: '' @ ''Failed to download audio'')),
                               fs1))))"

definition download_audio ::
  "(string \<Rightarrow> string set \<Rightarrow> exn + string set) \<Rightarrow> ydl \<Rightarrow> string \<Rightarrow> string \<Rightarrow> string set
     \<Rightarrow> (exn + string \<times> string \<times> number option) \<times> string set" where
  \<comment> \<open>youtube\_downloader.py\<close>
  "download_audio makedirs yt cwd youtube_url fs =
     (let download_dir = path_join cwd ''downloads''
      in case makedirs download_dir fs of
           Inl e \<Rightarrow> (Inl e, fs)
         | Inr fs0 \<Rightarrow>
             (let outtmpl = path_join download_dir ''%(title)s.%(ext)s''
              in case extract_info yt outtmpl youtube_url fs0 of
                   Inl e \<Rightarrow> (Inl (Exn OtherException (''Error: '' @ str_of_exn e)), fs0)
                 | Inr (info, fs1) \<Rightarrow>
                     (let video_title =
                            (case info_title info of None \<Rightarrow> ''Unknown'' | Some t \<Rightarrow> t);
                          duration =
                            (case info_duration info of None \<Rightarrow> Some (PyInt 0) | Some d \<Rightarrow> d);
                          declared = prepare_filename yt outtmpl info;
                          filename =
                            (if declared \<notin> fs1 \<and> replace declared ''.webm'' ''.m4a'' \<in> fs1
                             then replace declared ''.webm'' ''.m4a'' else declared)
                      in if filename \<in> fs1 then (Inr (filename, video_title, duration), fs1)
                         else (Inl (Exn OtherException (''Error: '' @ ''Failed to download audio'')),
                               fs1))))"

section \<open>The command-line pipelines\<close>

text \<open>
  A run of a script ends by \<open>sys.exit\<close>, by an exception that nothing catches, or by
  reaching the end of \<open>main\<close>. \<open>argparse\<close> leaves with status 2 when an argument is
  not one of its \<open>choices\<close>. Writing a file is taken to succeed. An option that is not
  given is \<open>None\<close>; \<open>if args.output:\<close> is false for \<open>None\<close> and for the empty path.
  In the result of transcribe\_with\_gemini.py, \<open>twg_saved_to\<close> is the file the output
  content is written to, or \<open>None\<close> when the content is printed instead.
\<close>

datatype 'a outcome = SysExit int | Raised exn | Completed 'a

record args_twg =
  twg_audio_file :: string
  twg_task :: string
  twg_output :: "string option"

record result_twg =
  twg_transcript :: string
  twg_processed_text :: string
  twg_output_content :: string
  twg_saved_to :: "string option"

definition main_twg ::
  "(string \<Rightarrow> bool) \<Rightarrow> gemini_api \<Rightarrow> (string \<Rightarrow> string option) \<Rightarrow> subprocess \<Rightarrow> string set
     \<Rightarrow> args_twg \<Rightarrow> result_twg outcome" where
  \<comment> \<open>transcribe\_with\_gemini.py, \<open>main\<close>; \<open>path_exists\<close> is \<open>os.path.exists\<close>\<close>
  "main_twg path_exists api guess_type run remote args =
     (if twg_task args \<in> set [''summarize'', ''translate'', ''analyze''] then
        if path_exists (twg_audio_file args) then
          (case fst (transcribe_with_gemini api guess_type (twg_audio_file args) remote) of
             Inl e \<Rightarrow> Raised e
           | Inr None \<Rightarrow> SysExit 1
           | Inr (Some transcript) \<Rightarrow>
               if transcript \<noteq> [] then
                 (case summarize_with_claude run transcript (twg_task args) of
                    Inl e \<Rightarrow> Raised e
                  | Inr r \<Rightarrow>
                      (let processed_text =
                             (case r of
                                None \<Rightarrow> transcript
                              | Some p \<Rightarrow> if p \<noteq> [] then p else transcript);
                           output_content =
                             ''=== ORIGINAL TRANSCRIPT ===\<newline>'' @ transcript
                               @ ''\<newline>\<newline>=== CLAUDE '' @ upper (twg_task args) @ '' ===\<newline>''
                               @ processed_text
                       in Completed
                            \<lparr>twg_transcript = transcript,
                             twg_processed_text = processed_text,
                             twg_output_content = output_content,
                             twg_saved_to =
                               (case twg_output args of
                                  None \<Rightarrow> None
                                | Some path \<Rightarrow> if path \<noteq> [] then Some path else None)\<rparr>))
               else SysExit 1)
        else SysExit 1
      else SysExit 2)"

record args_lt =
  lt_audio_file :: string
  lt_model :: string
  lt_task :: string
  lt_output :: "string option"

record result_lt =
  lt_transcription :: string
  lt_claude_result :: "string option"
  lt_output_file :: "string option"
  lt_transcript_file :: string

definition prompts :: "(string \<times> string) list" where
  "prompts =
     [(''summarize'', ''Please provide a concise summary of this transcription:''),
      (''translate'', ''Please translate this transcription to English (if not already in English):''),
      (''format'', ''Please format this transcription with proper punctuation and paragraphs:''),
      (''analyze'', ''Please analyze the key points and themes in this transcription:'')]"

definition title :: "string \<Rightarrow> string" where
  \<comment> \<open>\<open>str.title\<close> on one ASCII word; the code applies it to the task names only\<close>
  "title s = (case s of [] \<Rightarrow> [] | c # cs \<Rightarrow> upper_char c # lower cs)"

definition main_lt ::
  "(string \<Rightarrow> bool) \<Rightarrow> (string \<Rightarrow> string \<Rightarrow> exn + string) \<Rightarrow> subprocess \<Rightarrow> args_lt
     \<Rightarrow> result_lt outcome" where
  \<comment> \<open>local\_transcribe.py, \<open>main\<close>; \<open>whisper model file\<close> is the \<open>text\<close> entry of what
      the loaded model returns for the file, or the exception of loading or transcribing\<close>
  "main_lt path_exists whisper run args =
     (if lt_model args \<in> set [''tiny'', ''base'', ''small'', ''medium'', ''large''] \<and>
         lt_task args \<in> set [''summarize'', ''translate'', ''format'', ''analyze''] then
        if path_exists (lt_audio_file args) then
          (case whisper (lt_model args) (lt_audio_file args) of
             Inl e \<Rightarrow> Raised e
           | Inr transcription \<Rightarrow>
               (case map_of prompts (lt_task args) of
                  None \<Rightarrow> Raised (Exn OtherException (lt_task args))
                | Some prompt \<Rightarrow>
                    (case process_with_claude_lt run transcription prompt of
                       Inl e \<Rightarrow> Raised e
                     | Inr claude_result \<Rightarrow>
                         (case claude_result of
                            None \<Rightarrow>
                              Completed
                                \<lparr>lt_transcription = transcription,
                                 lt_claude_result = None,
                                 lt_output_file = None,
                                 lt_transcript_file = transcription\<rparr>
                          | Some r \<Rightarrow>
                              if r \<noteq> [] then
                                Completed
                                  \<lparr>lt_transcription = transcription,
                                   lt_claude_result = Some r,
                                   lt_output_file =
                                     (case lt_output args of
                                        None \<Rightarrow> None
                                      | Some path \<Rightarrow>
                                          if path \<noteq> [] then
                                          Some (''Original Transcription:\<newline>'' @ transcription
                                                @ ''\<newline>\<newline>'' @ ''Claude'' @ [CHR 0x27] @ ''s ''
                                                @ title (lt_task args) @ '':\<newline>'' @ r)
                                          else None),
                                   lt_transcript_file = transcription\<rparr>
                              else
                                Completed
                                  \<lparr>lt_transcription = transcription,
                                   lt_claude_result = None,
                                   lt_output_file = None,
                                   lt_transcript_file = transcription\<rparr>))))
        else SysExit 1
      else SysExit 2)"

text \<open>
  The two fallback policies the specification names, for comparison with what each
  script does when processing fails.
\<close>

datatype fallback_policy = Omit | FallBackToTranscript

definition spec_processed_on_failure :: "fallback_policy \<Rightarrow> string \<Rightarrow> string option" where
  "spec_processed_on_failure policy transcript =
     (case policy of Omit \<Rightarrow> None | FallBackToTranscript \<Rightarrow> Some transcript)"

text \<open>
  The truncation the specification asks for: the first \<open>limit\<close> characters, with the
  limit supplied by the caller.
\<close>

definition spec_truncate :: "nat \<Rightarrow> string \<Rightarrow> string" where
  "spec_truncate limit transcript = take limit transcript"

text \<open>
  The file name the specification expects the fetcher to probe.
\<close>

definition spec_corrected_extension :: "string \<Rightarrow> string" where
  \<comment> \<open>the specification's correction of a declared file name: the same name with the
      extension \<open>.webm\<close> replaced by \<open>.m4a\<close>\<close>
  "spec_corrected_extension p =
     (if snd (splitext p) = ''.webm'' then fst (splitext p) @ ''.m4a'' else p)"

section \<open>\<open>format_duration\<close> (youtube\_downloader.py, gemini\_claude\_app.py)\<close>


section \<open>Backends used as examples\<close>

definition api_ok :: "string \<Rightarrow> gemini_api" where
  \<comment> \<open>every call succeeds; the response carries the given text\<close>
  "api_ok t =
     \<lparr>GenerativeModel = (\<lambda>model_name. None),
      upload_file = (\<lambda>path mime_type. Inr ''files/abc''),
      generate_content = (\<lambda>model_name parts. Inr \<lparr>response_text = Inr t\<rparr>),
      delete_file = (\<lambda>name. None)\<rparr>"

definition api_generate_fails :: gemini_api where
  \<comment> \<open>the upload succeeds, \<open>generate_content\<close> raises\<close>
  "api_generate_fails =
     \<lparr>GenerativeModel = (\<lambda>model_name. None),
      upload_file = (\<lambda>path mime_type. Inr ''files/abc''),
      generate_content = (\<lambda>model_name parts. Inl (Exn OtherException ''503 Service Unavailable'')),
      delete_file = (\<lambda>name. None)\<rparr>"

definition api_echo :: gemini_api where
  \<comment> \<open>a stub whose response is the text of the prompt it receives\<close>
  "api_echo =
     \<lparr>GenerativeModel = (\<lambda>model_name. None),
      upload_file = (\<lambda>path mime_type. Inr ''files/abc''),
      generate_content =
        (\<lambda>model_name parts.
           Inr \<lparr>response_text = Inr (concat (map (\<lambda>p. case p of Text t \<Rightarrow> t | File n \<Rightarrow> []) parts))\<rparr>),
      delete_file = (\<lambda>name. None)\<rparr>"

definition run_exit :: "int \<Rightarrow> string \<Rightarrow> string \<Rightarrow> subprocess" where
  \<comment> \<open>the process completes with the given return code and streams\<close>
  "run_exit code out err = (\<lambda>argv timeout. Inr \<lparr>returncode = code, stdout = out, stderr = err\<rparr>)"

definition run_echo :: subprocess where
  \<comment> \<open>the process writes its last argument to standard output and exits with 0\<close>
  "run_echo = (\<lambda>argv timeout. Inr \<lparr>returncode = 0, stdout = last argv, stderr = []\<rparr>)"

definition run_missing :: subprocess where
  \<comment> \<open>the executable is not installed\<close>
  "run_missing = (\<lambda>argv timeout. Inl (Exn FileNotFoundError ''claude''))"

definition hello_world :: "nat segment list" where
  \<comment> \<open>two segments as the speech model emits them, each text led by a space\<close>
  "hello_world =
     [\<lparr>seg_text = '' Hello'', seg_start = 0, seg_end = 1\<rparr>,
      \<lparr>seg_text = '' world'', seg_start = 1, seg_end = 2\<rparr>]"

definition makedirs_ok :: "string \<Rightarrow> string set \<Rightarrow> exn + string set" where
  \<comment> \<open>the directory is there or is created\<close>
  "makedirs_ok path fs = Inr (insert path fs)"

definition makedirs_blocked :: "string \<Rightarrow> string set \<Rightarrow> exn + string set" where
  \<comment> \<open>the path is a regular file\<close>
  "makedirs_blocked path fs = Inl (Exn OtherException (''[Errno 17] File exists: '' @ path))"

definition ydl_clip :: ydl where
  \<comment> \<open>a video titled \<open>clip.webm sample\<close>: the library declares the extension \<open>.webm\<close>
      and writes the file with the extension \<open>.m4a\<close>\<close>
  "ydl_clip =
     \<lparr>extract_info =
        (\<lambda>outtmpl url fs.
           Inr (\<lparr>info_title = Some ''clip.webm sample'', info_duration = Some (Some (PyInt 12))\<rparr>,
                insert ''/home/u/downloads/clip.webm sample.m4a'' fs)),
      prepare_filename = (\<lambda>outtmpl info. ''/home/u/downloads/clip.webm sample.webm'')\<rparr>"

definition ydl_talk :: ydl where
  \<comment> \<open>a video titled \<open>talk\<close>, declared \<open>.webm\<close> and written as \<open>.m4a\<close>\<close>
  "ydl_talk =
     \<lparr>extract_info =
        (\<lambda>outtmpl url fs.
           Inr (\<lparr>info_title = Some ''talk'', info_duration = Some (Some (PyInt 12))\<rparr>,
                insert ''/home/u/downloads/talk.m4a'' fs)),
      prepare_filename = (\<lambda>outtmpl info. ''/home/u/downloads/talk.webm'')\<rparr>"

section \<open>Properties\<close>

subsection \<open>\<open>format_duration\<close>\<close>









lemma floor_examples:
  "\<lfloor>425 / 2 :: real\<rfloor> = 212" "\<lfloor>1 / 2 :: real\<rfloor> = 0"
  by simp_all


subsection \<open>MIME classification\<close>

text \<open>
  C6. The three definitions of \<open>get_mime_type\<close> are the same function: for every path
  (and every table of \<open>mimetypes\<close>) they return the same type. When the extension is not
  a recognized audio type, that is \<open>guess_type\<close> gives nothing or a type outside
  \<open>audio/\<close> and the lower-cased extension is not a key of \<open>mime_map\<close>, the result is
  the fixed fallback \<open>audio/wav\<close>.
\<close>

theorem get_mime_type_same_everywhere:
  "get_mime_type guess_type audio_path = get_mime_type_gca guess_type audio_path \<and>
   get_mime_type_gca guess_type audio_path = get_mime_type_ga guess_type audio_path \<and>
   ((guess_type audio_path = None \<or>
       (\<exists>m. guess_type audio_path = Some m \<and> \<not> prefix ''audio/'' m)) \<and>
     lower (snd (splitext audio_path)) \<notin> fst ` set mime_map
     \<longrightarrow> get_mime_type guess_type audio_path = ''audio/wav'')"
proof -
  have same: "get_mime_type guess_type audio_path = get_mime_type_gca guess_type audio_path"
    "get_mime_type_gca guess_type audio_path = get_mime_type_ga guess_type audio_path"
    by (simp_all add: get_mime_type_def get_mime_type_gca_def get_mime_type_ga_def)
  have fallback: "get_mime_type guess_type audio_path = ''audio/wav''"
    if g: "guess_type audio_path = None \<or>
            (\<exists>m. guess_type audio_path = Some m \<and> \<not> prefix ''audio/'' m)"
      and e: "lower (snd (splitext audio_path)) \<notin> fst ` set mime_map"
  proof -
    from e have "map_of mime_map (lower (snd (splitext audio_path))) = None"
      by (simp add: map_of_eq_None_iff)
    with g show ?thesis
      by (auto simp add: get_mime_type_def Let_def)
  qed
  from same fallback show ?thesis by blast
qed

theorem get_mime_type_same_everywhere_witness:
  "get_mime_type (\<lambda>p. None) ''talk.xyz'' = get_mime_type_gca (\<lambda>p. None) ''talk.xyz'' \<and>
   get_mime_type_gca (\<lambda>p. None) ''talk.xyz'' = get_mime_type_ga (\<lambda>p. None) ''talk.xyz'' \<and>
   lower (snd (splitext ''talk.xyz'')) \<notin> fst ` set mime_map \<and>
   get_mime_type (\<lambda>p. None) ''talk.xyz'' = ''audio/wav'' \<and>
   \<not> prefix ''audio/'' ''video/mp4'' \<and>
   lower (snd (splitext ''clip.MP4'')) \<notin> fst ` set mime_map \<and>
   get_mime_type (\<lambda>p. Some ''video/mp4'') ''clip.MP4'' = ''audio/wav''"
proof -
  have ext: "lower (snd (splitext ''talk.xyz'')) = ''.xyz''"
    "lower (snd (splitext ''clip.MP4'')) = ''.mp4''"
    by code_simp+
  have notin: "lower (snd (splitext ''talk.xyz'')) \<notin> fst ` set mime_map"
    "lower (snd (splitext ''clip.MP4'')) \<notin> fst ` set mime_map"
    unfolding ext by (simp_all add: mime_map_def)
  have np: "\<not> prefix ''audio/'' ''video/mp4''"
    by simp
  note inst = get_mime_type_same_everywhere [of "\<lambda>p. None" "''talk.xyz''"]
  note inst2 = get_mime_type_same_everywhere [of "\<lambda>p. Some ''video/mp4''" "''clip.MP4''"]
  from inst have a: "get_mime_type (\<lambda>p. None) ''talk.xyz'' = get_mime_type_gca (\<lambda>p. None) ''talk.xyz''"
    by (rule conjunct1)
  from inst have b: "get_mime_type_gca (\<lambda>p. None) ''talk.xyz'' = get_mime_type_ga (\<lambda>p. None) ''talk.xyz''"
    by blast
  from inst notin have c: "get_mime_type (\<lambda>p. None) ''talk.xyz'' = ''audio/wav''"
    by blast
  from inst2 notin np have d: "get_mime_type (\<lambda>p. Some ''video/mp4'') ''clip.MP4'' = ''audio/wav''"
    by blast
  from a b notin c np d show ?thesis by blast
qed

subsection \<open>Remote transcription and the command-line summary\<close>

lemma transcribe_with_gemini_fst:
  "fst (transcribe_with_gemini api guess_type audio_path remote) =
     (case fst (transcribe_try api ''gemini-1.5-flash'' audio_path
                  (get_mime_type guess_type audio_path) remote) of
        Inl e \<Rightarrow> Inr None | Inr t \<Rightarrow> Inr (Some t))"
  by (simp add: transcribe_with_gemini_def split: prod.splits sum.splits)

lemma transcribe_try_success_iff:
  "fst (transcribe_try api model_name audio_path mime_type remote) = Inr t \<longleftrightarrow>
     GenerativeModel api model_name = None \<and>
     (\<exists>name resp. upload_file api audio_path mime_type = Inr name \<and>
        generate_content api model_name [Text transcribe_instruction, File name] = Inr resp \<and>
        delete_file api name = None \<and> response_text resp = Inr t)"
  by (auto simp add: transcribe_try_def split: option.splits sum.splits)

text \<open>
  C9. \<open>transcribe_with_gemini\<close> and \<open>summarize_with_claude\<close> of
  transcribe\_with\_gemini.py are total at their interface: for every backend and every
  input they return, and what they return is the produced text or \<open>None\<close>. The text is
  returned exactly when every backend call succeeded (for the subprocess: it completed
  with return code 0); every exception that leaves the body of the \<open>try\<close> and every
  non-zero return code gives \<open>None\<close>, and no exception reaches the caller.
\<close>

theorem total_at_interface:
  "(\<exists>r. fst (transcribe_with_gemini api guess_type audio_path remote) = Inr r) \<and>
   (fst (transcribe_with_gemini api guess_type audio_path remote) = Inr (Some t) \<longleftrightarrow>
      GenerativeModel api ''gemini-1.5-flash'' = None \<and>
      (\<exists>name resp.
         upload_file api audio_path (get_mime_type guess_type audio_path) = Inr name \<and>
         generate_content api ''gemini-1.5-flash'' [Text transcribe_instruction, File name] = Inr resp \<and>
         delete_file api name = None \<and> response_text resp = Inr t)) \<and>
   (\<forall>e. fst (transcribe_try api ''gemini-1.5-flash'' audio_path
               (get_mime_type guess_type audio_path) remote) = Inl e
        \<longrightarrow> fst (transcribe_with_gemini api guess_type audio_path remote) = Inr None) \<and>
   (\<exists>r. summarize_with_claude run text task = Inr r) \<and>
   (summarize_with_claude run text task = Inr (Some s) \<longleftrightarrow>
      (\<exists>result. run [''claude'', ''say'', summarize_prompt text task] None = Inr result \<and>
         returncode result = 0 \<and> s = strip (stdout result))) \<and>
   (\<forall>e. run [''claude'', ''say'', summarize_prompt text task] None = Inl e
        \<longrightarrow> summarize_with_claude run text task = Inr None) \<and>
   (\<forall>result. run [''claude'', ''say'', summarize_prompt text task] None = Inr result \<and>
        returncode result \<noteq> 0
        \<longrightarrow> summarize_with_claude run text task = Inr None)"
proof -
  have t1: "\<exists>r. fst (transcribe_with_gemini api guess_type audio_path remote) = Inr r"
    by (simp add: transcribe_with_gemini_fst split: sum.splits)
  have t2: "fst (transcribe_with_gemini api guess_type audio_path remote) = Inr (Some t) \<longleftrightarrow>
      GenerativeModel api ''gemini-1.5-flash'' = None \<and>
      (\<exists>name resp.
         upload_file api audio_path (get_mime_type guess_type audio_path) = Inr name \<and>
         generate_content api ''gemini-1.5-flash'' [Text transcribe_instruction, File name] = Inr resp \<and>
         delete_file api name = None \<and> response_text resp = Inr t)"
  proof -
    have "fst (transcribe_with_gemini api guess_type audio_path remote) = Inr (Some t) \<longleftrightarrow>
        fst (transcribe_try api ''gemini-1.5-flash'' audio_path
               (get_mime_type guess_type audio_path) remote) = Inr t"
      by (simp add: transcribe_with_gemini_fst split: sum.splits)
    then show ?thesis
      by (simp only: transcribe_try_success_iff)
  qed
  have t3: "\<forall>e. fst (transcribe_try api ''gemini-1.5-flash'' audio_path
               (get_mime_type guess_type audio_path) remote) = Inl e
        \<longrightarrow> fst (transcribe_with_gemini api guess_type audio_path remote) = Inr None"
    by (simp add: transcribe_with_gemini_fst)
  have s1: "\<exists>r. summarize_with_claude run text task = Inr r"
    by (simp add: summarize_with_claude_def split: sum.splits)
  have s2: "summarize_with_claude run text task = Inr (Some s) \<longleftrightarrow>
      (\<exists>result. run [''claude'', ''say'', summarize_prompt text task] None = Inr result \<and>
         returncode result = 0 \<and> s = strip (stdout result))"
    by (auto simp add: summarize_with_claude_def split: sum.splits)
  have s3: "\<forall>e. run [''claude'', ''say'', summarize_prompt text task] None = Inl e
        \<longrightarrow> summarize_with_claude run text task = Inr None"
    by (simp add: summarize_with_claude_def)
  have s4: "\<forall>result. run [''claude'', ''say'', summarize_prompt text task] None = Inr result \<and>
        returncode result \<noteq> 0
        \<longrightarrow> summarize_with_claude run text task = Inr None"
    by (simp add: summarize_with_claude_def)
  from t1 t2 t3 s1 s2 s3 s4 show ?thesis by blast
qed

lemma try_generate_fails:
  "transcribe_try api_generate_fails model_name audio_path mime_type remote =
     (Inl (Exn OtherException ''503 Service Unavailable''), insert ''files/abc'' remote)"
  by (simp add: transcribe_try_def api_generate_fails_def)

theorem total_at_interface_witness:
  "fst (transcribe_try api_generate_fails ''gemini-1.5-flash'' ''talk.mp3''
          (get_mime_type (\<lambda>p. None) ''talk.mp3'') {}) = Inl (Exn OtherException ''503 Service Unavailable'') \<and>
   fst (transcribe_with_gemini api_generate_fails (\<lambda>p. None) ''talk.mp3'' {}) = Inr None \<and>
   run_missing [''claude'', ''say'', summarize_prompt ''hello'' ''summarize''] None
     = Inl (Exn FileNotFoundError ''claude'') \<and>
   summarize_with_claude run_missing ''hello'' ''summarize'' = Inr None \<and>
   run_exit 1 [] ''not logged in'' [''claude'', ''say'', summarize_prompt ''hello'' ''summarize''] None
     = Inr \<lparr>returncode = 1, stdout = [], stderr = ''not logged in''\<rparr> \<and>
   summarize_with_claude (run_exit 1 [] ''not logged in'') ''hello'' ''summarize'' = Inr None"
proof -
  note a = total_at_interface [of api_generate_fails "\<lambda>p. None" "''talk.mp3''" "{}" "[]"
      run_missing "''hello''" "''summarize''" "[]"]
  note b = total_at_interface [of api_generate_fails "\<lambda>p. None" "''talk.mp3''" "{}" "[]"
      "run_exit 1 [] ''not logged in''" "''hello''" "''summarize''" "[]"]
  have h1: "fst (transcribe_try api_generate_fails ''gemini-1.5-flash'' ''talk.mp3''
          (get_mime_type (\<lambda>p. None) ''talk.mp3'') {}) = Inl (Exn OtherException ''503 Service Unavailable'')"
    by (simp add: try_generate_fails)
  have h2: "run_missing [''claude'', ''say'', summarize_prompt ''hello'' ''summarize''] None
     = Inl (Exn FileNotFoundError ''claude'')"
    by (simp add: run_missing_def)
  have h3: "run_exit 1 [] ''not logged in'' [''claude'', ''say'', summarize_prompt ''hello'' ''summarize''] None
     = Inr \<lparr>returncode = 1, stdout = [], stderr = ''not logged in''\<rparr>"
    by (simp add: run_exit_def)
  from a h1 have c1: "fst (transcribe_with_gemini api_generate_fails (\<lambda>p. None) ''talk.mp3'' {}) = Inr None"
    by blast
  from a h2 have c2: "summarize_with_claude run_missing ''hello'' ''summarize'' = Inr None"
    by blast
  from b h3 have c3: "summarize_with_claude (run_exit 1 [] ''not logged in'') ''hello'' ''summarize'' = Inr None"
    by (metis completed_process.select_convs(1) zero_neq_one)
  from h1 c1 h2 c2 h3 c3 show ?thesis by blast
qed

text \<open>
  C2. The uploaded remote resource is to be deleted before \<open>transcribe_with_gemini\<close>
  returns, on every path. The code deletes it only after \<open>generate_content\<close> has
  returned: when the upload succeeds and \<open>generate_content\<close> raises, the handler returns
  \<open>None\<close> and the uploaded file \<open>files/abc\<close> is still in the remote store, in
  transcribe\_with\_gemini.py and in gemini\_claude\_app.py alike.
\<close>

theorem upload_not_released_when_generate_fails:
  "transcribe_with_gemini api_generate_fails (\<lambda>p. None) ''talk.mp3'' {}
     = (Inr None, {''files/abc''}) \<and>
   transcribe_with_gemini_gca api_generate_fails ''gemini-1.5-flash'' (\<lambda>p. None) ''talk.mp3'' {}
     = (Inr None, {''files/abc''})"
  by (simp add: transcribe_with_gemini_def transcribe_with_gemini_gca_def try_generate_fails)

lemma released_on_success:
  "fst (transcribe_with_gemini api guess_type audio_path remote) = Inr (Some t) \<Longrightarrow>
   upload_file api audio_path (get_mime_type guess_type audio_path) = Inr name \<Longrightarrow>
   name \<notin> snd (transcribe_with_gemini api guess_type audio_path remote)"
  by (auto simp add: transcribe_with_gemini_def transcribe_try_def split: option.splits sum.splits prod.splits)

subsection \<open>Blank transcripts\<close>

lemma fold_tas:
  "fold (\<lambda>segment transcription. transcription @ seg_text segment @ '' '') segments acc =
     acc @ concat (map (\<lambda>s. seg_text s @ '' '') segments)"
  by (induction segments arbitrary: acc) simp_all

lemma strip_blank:
  assumes "list_all is_space s"
  shows "strip s = []"
proof -
  from assms have d: "dropWhile is_space s = []"
    by (simp add: list_all_iff dropWhile_eq_Nil_conv)
  show ?thesis
    unfolding strip_def d by simp
qed

lemma is_space_blank [simp]: "is_space CHR '' ''"
  by (simp add: is_space_def)

text \<open>
  C1, as amended. Neither transcription variant rejects a blank result. When every
  backend call succeeds and the text \<open>t\<close> of the response is empty or whitespace-only,
  \<open>transcribe_with_gemini\<close> returns \<open>t\<close> unchanged as its result; when every segment
  text is empty or whitespace-only, \<open>transcribe_audio\<close> of transcribe\_and\_summarize.py
  returns the empty string as its result. No \<open>EmptyResult\<close> failure is raised.
\<close>

theorem blank_text_is_returned_as_success:
  "(list_all is_space t \<and>
    GenerativeModel api ''gemini-1.5-flash'' = None \<and>
    upload_file api audio_path (get_mime_type guess_type audio_path) = Inr name \<and>
    generate_content api ''gemini-1.5-flash'' [Text transcribe_instruction, File name] = Inr resp \<and>
    delete_file api name = None \<and> response_text resp = Inr t
    \<longrightarrow> fst (transcribe_with_gemini api guess_type audio_path remote) = Inr (Some t)) \<and>
   (list_all (\<lambda>s. list_all is_space (seg_text s)) segments
    \<longrightarrow> transcribe_audio_tas segments = [])"
proof -
  have remote_part: "fst (transcribe_with_gemini api guess_type audio_path remote) = Inr (Some t)"
    if "GenerativeModel api ''gemini-1.5-flash'' = None"
      and "upload_file api audio_path (get_mime_type guess_type audio_path) = Inr name"
      and "generate_content api ''gemini-1.5-flash'' [Text transcribe_instruction, File name] = Inr resp"
      and "delete_file api name = None" and "response_text resp = Inr t"
    using that by (simp add: transcribe_with_gemini_def transcribe_try_def)
  have local_part: "transcribe_audio_tas segments = []"
    if blank: "list_all (\<lambda>s. list_all is_space (seg_text s)) segments"
  proof -
    from blank have "list_all is_space (concat (map (\<lambda>s. seg_text s @ '' '') segments))"
      by (induction segments) simp_all
    then show ?thesis
      by (simp add: transcribe_audio_tas_def fold_tas strip_blank)
  qed
  from remote_part local_part show ?thesis by blast
qed

theorem blank_text_is_returned_as_success_witness:
  "list_all is_space ''   '' \<and>
   fst (transcribe_with_gemini (api_ok ''   '') (\<lambda>p. None) ''silence.wav'' {}) = Inr (Some ''   '') \<and>
   list_all (\<lambda>s. list_all is_space (seg_text s))
     [\<lparr>seg_text = '' '', seg_start = 0::nat, seg_end = 10\<rparr>] \<and>
   transcribe_audio_tas [\<lparr>seg_text = '' '', seg_start = 0::nat, seg_end = 10\<rparr>] = []"
proof -
  note inst = blank_text_is_returned_as_success [of "''   ''" "api_ok ''   ''" "''silence.wav''"
      "\<lambda>p. None" "''files/abc''" "\<lparr>response_text = Inr ''   ''\<rparr>" "{}"
      "[\<lparr>seg_text = '' '', seg_start = 0::nat, seg_end = 10\<rparr>]"]
  have h1: "list_all is_space ''   ''" by simp
  have h2: "GenerativeModel (api_ok ''   '') ''gemini-1.5-flash'' = None"
    "upload_file (api_ok ''   '') ''silence.wav'' (get_mime_type (\<lambda>p. None) ''silence.wav'') = Inr ''files/abc''"
    "generate_content (api_ok ''   '') ''gemini-1.5-flash'' [Text transcribe_instruction, File ''files/abc'']
       = Inr \<lparr>response_text = Inr ''   ''\<rparr>"
    "delete_file (api_ok ''   '') ''files/abc'' = None"
    "response_text \<lparr>response_text = Inr ''   ''\<rparr> = Inr ''   ''"
    by (simp_all add: api_ok_def)
  have h3: "list_all (\<lambda>s. list_all is_space (seg_text s))
     [\<lparr>seg_text = '' '', seg_start = 0::nat, seg_end = 10\<rparr>]" by simp
  from inst h1 h2 have c1: "fst (transcribe_with_gemini (api_ok ''   '') (\<lambda>p. None) ''silence.wav'' {}) = Inr (Some ''   '')"
    by blast
  from inst h3 have c2: "transcribe_audio_tas [\<lparr>seg_text = '' '', seg_start = 0::nat, seg_end = 10\<rparr>] = []"
    by blast
  from h1 c1 h3 c2 show ?thesis by blast
qed

text \<open>
  The claim as stated fails: a backend that answers with an empty or blank text makes
  both variants return that blank text as a success.
\<close>

theorem blank_transcript_not_rejected:
  "fst (transcribe_with_gemini (api_ok []) (\<lambda>p. None) ''silence.wav'' {}) = Inr (Some []) \<and>
   fst (transcribe_with_gemini (api_ok '' '') (\<lambda>p. None) ''silence.wav'' {}) = Inr (Some '' '') \<and>
   transcribe_audio_tas ([] :: nat segment list) = [] \<and>
   transcribe_audio_tas [\<lparr>seg_text = '' '', seg_start = 0::nat, seg_end = 10\<rparr>] = []"
  by (simp add: transcribe_with_gemini_def transcribe_try_def api_ok_def transcribe_audio_tas_def
      strip_def)

subsection \<open>Prompt construction\<close>

lemma build_prompt_nonempty: "build_prompt text task target_language \<noteq> []"
  by (simp add: build_prompt_def)

lemma build_prompt_ga_eq: "build_prompt_ga text task target_language = build_prompt text task target_language"
  by (simp add: build_prompt_ga_def build_prompt_def)

text \<open>
  C4. The prompt of the text-processing provider is a function of the text and the
  directive alone: \<open>process_with_claude\<close> and \<open>process_with_gemini\<close> build the same
  string from \<open>(text, task, target_language)\<close>, the template (what stands before and
  after the language and the text) is fixed by the task, and a backend that echoes its
  prompt returns that string (trimmed). For the directive translate/French and the text
  "Hello world" the prompt contains "translate the following transcript to French" and
  "Hello world".
\<close>

theorem prompt_is_function_of_directive:
  "build_prompt ''Hello world'' ''translate'' ''French''
     = ''Please translate the following transcript to French:\<newline>\<newline>Hello world'' \<and>
   sublist ''translate the following transcript to French''
     (build_prompt ''Hello world'' ''translate'' ''French'') \<and>
   sublist ''Hello world'' (build_prompt ''Hello world'' ''translate'' ''French'') \<and>
   build_prompt_ga text task target_language = build_prompt text task target_language \<and>
   (\<exists>before after. \<forall>text' target_language'.
      build_prompt text' task target_language' = before @ target_language' @ after @ text') \<and>
   process_with_gemini api_echo text task target_language
     = Inr (Some (strip (build_prompt_ga text task target_language))) \<and>
   process_with_claude run_echo text task target_language
     = Inr (Some (strip (build_prompt text task target_language)))"
proof -
  have scenario: "build_prompt ''Hello world'' ''translate'' ''French''
     = ''Please translate the following transcript to French:\<newline>\<newline>Hello world''"
    by (simp add: build_prompt_def)
  have "sublist ''translate the following transcript to French''
     (''Please '' @ ''translate the following transcript to French'' @ '':\<newline>\<newline>Hello world'')"
    by (rule sublist_appendI)
  then have sub1: "sublist ''translate the following transcript to French''
     (build_prompt ''Hello world'' ''translate'' ''French'')"
    by (simp add: scenario)
  have "sublist ''Hello world''
     (''Please translate the following transcript to French:\<newline>\<newline>'' @ ''Hello world'' @ [])"
    by (rule sublist_appendI)
  then have sub2: "sublist ''Hello world'' (build_prompt ''Hello world'' ''translate'' ''French'')"
    by (simp add: scenario)
  have template: "\<exists>before after. \<forall>text' target_language'.
      build_prompt text' task target_language' = before @ target_language' @ after @ text'"
  proof (cases "task = ''summarize''")
    case True
    then have "\<forall>text' target_language'. build_prompt text' task target_language'
        = ''Please provide a concise summary of the following transcript in '' @ target_language'
          @ '':\<newline>\<newline>'' @ text'"
      by (simp add: build_prompt_def)
    then show ?thesis by blast
  next
    case ns: False
    show ?thesis
    proof (cases "task = ''translate''")
      case True
      then have "\<forall>text' target_language'. build_prompt text' task target_language'
          = ''Please translate the following transcript to '' @ target_language'
            @ '':\<newline>\<newline>'' @ text'"
        by (simp add: build_prompt_def)
      then show ?thesis by blast
    next
      case nt: False
      show ?thesis
      proof (cases "task = ''analyze''")
        case True
        then have "\<forall>text' target_language'. build_prompt text' task target_language'
            = ''Please analyze the key points and themes in the following transcript in ''
              @ target_language' @ '':\<newline>\<newline>'' @ text'"
          by (simp add: build_prompt_def)
        then show ?thesis by blast
      next
        case False
        with ns nt have "\<forall>text' target_language'. build_prompt text' task target_language'
            = (''Please '' @ task @ '' the following transcript in '') @ target_language'
              @ '':\<newline>\<newline>'' @ text'"
          by (simp add: build_prompt_def)
        then show ?thesis by blast
      qed
    qed
  qed
  have echo_gemini: "process_with_gemini api_echo text task target_language
     = Inr (Some (strip (build_prompt_ga text task target_language)))"
    using build_prompt_nonempty [of "text" task target_language]
    by (simp add: process_with_gemini_def api_echo_def build_prompt_ga_eq)
  have echo_claude: "process_with_claude run_echo text task target_language
     = Inr (Some (strip (build_prompt text task target_language)))"
    by (simp add: process_with_claude_def run_echo_def)
  from scenario sub1 sub2 build_prompt_ga_eq template echo_gemini echo_claude
  show ?thesis by blast
qed

subsection \<open>Truncation before the command-line backend\<close>

text \<open>
  C8, as amended. The number of characters of the transcript that reach the
  command-line backend is a constant written in each script, not a parameter:
  \<open>summarize_with_claude\<close> of youtube\_transcribe\_app.py sends the first 2500,
  \<open>process_with_claude\<close> of transcribe\_full.py the first 3000, \<open>main\<close> of
  quick\_transcribe.py the first 4000 (each after the prompt header, which is the prompt
  for the empty text). The remote-API variant \<open>process_with_gemini\<close> sends the whole
  transcript.
\<close>

theorem truncation_limits_are_fixed:
  "excerpt_prompt_yta text language = excerpt_prompt_yta [] language @ take 2500 text \<and>
   excerpt_prompt_tf text language = excerpt_prompt_tf [] language @ take 3000 text \<and>
   excerpt_prompt_quick text = excerpt_prompt_quick [] @ take 4000 text \<and>
   summarize_with_claude_yta run_echo text language = Inr (Some (excerpt_prompt_yta text language)) \<and>
   process_with_claude_tf run_echo text language = Inr (Some (excerpt_prompt_tf text language)) \<and>
   build_prompt_ga text task target_language = build_prompt_ga [] task target_language @ text \<and>
   process_with_gemini api_echo text task target_language
     = Inr (Some (strip (build_prompt_ga [] task target_language @ text)))"
proof -
  have a: "excerpt_prompt_yta text language = excerpt_prompt_yta [] language @ take 2500 text"
    by (simp add: excerpt_prompt_yta_def)
  have b: "excerpt_prompt_tf text language = excerpt_prompt_tf [] language @ take 3000 text"
    by (simp add: excerpt_prompt_tf_def)
  have c: "excerpt_prompt_quick text = excerpt_prompt_quick [] @ take 4000 text"
    by (simp add: excerpt_prompt_quick_def)
  have d: "summarize_with_claude_yta run_echo text language = Inr (Some (excerpt_prompt_yta text language))"
    by (simp add: summarize_with_claude_yta_def run_echo_def)
  have e: "process_with_claude_tf run_echo text language = Inr (Some (excerpt_prompt_tf text language))"
    by (simp add: process_with_claude_tf_def run_echo_def)
  have f: "build_prompt_ga text task target_language = build_prompt_ga [] task target_language @ text"
    by (simp add: build_prompt_ga_def)
  have "build_prompt_ga text task target_language \<noteq> []"
    by (simp add: build_prompt_ga_def)
  then have "process_with_gemini api_echo text task target_language
     = Inr (Some (strip (build_prompt_ga text task target_language)))"
    by (simp add: process_with_gemini_def api_echo_def)
  with f have g: "process_with_gemini api_echo text task target_language
     = Inr (Some (strip (build_prompt_ga [] task target_language @ text)))"
    by simp
  from a b c d e f g show ?thesis by blast
qed

text \<open>
  The claim as stated fails: the functions take the text and the language and nothing
  else, and for a transcript of 3001 characters a caller asking for a limit of 3001
  gets 2500 characters from one script and 3000 from the other.
\<close>

theorem truncation_limit_not_a_parameter:
  "excerpt_prompt_yta (replicate 3001 CHR ''x'') ''en''
     = excerpt_prompt_yta [] ''en'' @ replicate 2500 CHR ''x'' \<and>
   excerpt_prompt_yta (replicate 3001 CHR ''x'') ''en''
     \<noteq> excerpt_prompt_yta [] ''en'' @ spec_truncate 3001 (replicate 3001 CHR ''x'') \<and>
   excerpt_prompt_tf (replicate 3001 CHR ''x'') ''en''
     = excerpt_prompt_tf [] ''en'' @ replicate 3000 CHR ''x'' \<and>
   excerpt_prompt_tf (replicate 3001 CHR ''x'') ''en''
     \<noteq> excerpt_prompt_tf [] ''en'' @ spec_truncate 3001 (replicate 3001 CHR ''x'')"
proof -
  have ne: "replicate 2500 CHR ''x'' \<noteq> replicate 3001 CHR ''x''"
    "replicate 3000 CHR ''x'' \<noteq> replicate 3001 CHR ''x''"
    by (simp_all add: replicate_eq_replicate)
  then show ?thesis
    by (simp add: excerpt_prompt_yta_def excerpt_prompt_tf_def spec_truncate_def)
qed

subsection \<open>Processing failures in the pipelines\<close>

text \<open>
  C3, as amended. When transcription succeeds and processing fails, each script has one
  fixed behaviour, and no argument selects the other. \<open>main\<close> of
  transcribe\_with\_gemini.py completes, and the content it saves (to the \<open>--output\<close>
  path when that is not empty) or prints holds the transcript twice: under the heading
  of the original and, as the processed text, under the heading of the task.
  \<open>main\<close> of local\_transcribe.py, when the command-line tool exits with a non-zero
  status, completes with the transcript saved and the processed text absent.
\<close>

theorem fallback_is_fixed_per_script:
  "(twg_task args \<in> set [''summarize'', ''translate'', ''analyze''] \<and>
    path_exists (twg_audio_file args) \<and>
    fst (transcribe_with_gemini api guess_type (twg_audio_file args) remote) = Inr (Some transcript) \<and>
    transcript \<noteq> [] \<and>
    summarize_with_claude run transcript (twg_task args) = Inr None
    \<longrightarrow> main_twg path_exists api guess_type run remote args =
          Completed
            \<lparr>twg_transcript = transcript,
             twg_processed_text = transcript,
             twg_output_content =
               ''=== ORIGINAL TRANSCRIPT ===\<newline>'' @ transcript
                 @ ''\<newline>\<newline>=== CLAUDE '' @ upper (twg_task args) @ '' ===\<newline>'' @ transcript,
             twg_saved_to =
               (case twg_output args of
                  None \<Rightarrow> None
                | Some path \<Rightarrow> if path \<noteq> [] then Some path else None)\<rparr>) \<and>
   (lt_model largs \<in> set [''tiny'', ''base'', ''small'', ''medium'', ''large''] \<and>
    lt_task largs \<in> set [''summarize'', ''translate'', ''format'', ''analyze''] \<and>
    path_exists' (lt_audio_file largs) \<and>
    whisper (lt_model largs) (lt_audio_file largs) = Inr transcription \<and>
    map_of prompts (lt_task largs) = Some prompt \<and>
    run' [''claude'', ''-m'', ''claude-3-haiku-20240307'', prompt @ ''\<newline>\<newline>'' @ transcription] None
      = Inr result \<and>
    returncode result \<noteq> 0
    \<longrightarrow> main_lt path_exists' whisper run' largs =
          Completed \<lparr>lt_transcription = transcription, lt_claude_result = None,
                     lt_output_file = None, lt_transcript_file = transcription\<rparr>)"
proof -
  have twg: "main_twg path_exists api guess_type run remote args =
          Completed
            \<lparr>twg_transcript = transcript,
             twg_processed_text = transcript,
             twg_output_content =
               ''=== ORIGINAL TRANSCRIPT ===\<newline>'' @ transcript
                 @ ''\<newline>\<newline>=== CLAUDE '' @ upper (twg_task args) @ '' ===\<newline>'' @ transcript,
             twg_saved_to =
               (case twg_output args of
                  None \<Rightarrow> None
                | Some path \<Rightarrow> if path \<noteq> [] then Some path else None)\<rparr>"
    if "twg_task args \<in> set [''summarize'', ''translate'', ''analyze'']"
      and "path_exists (twg_audio_file args)"
      and "fst (transcribe_with_gemini api guess_type (twg_audio_file args) remote) = Inr (Some transcript)"
      and "transcript \<noteq> []"
      and "summarize_with_claude run transcript (twg_task args) = Inr None"
    using that unfolding main_twg_def by (simp add: Let_def)
  have lt: "main_lt path_exists' whisper run' largs =
          Completed \<lparr>lt_transcription = transcription, lt_claude_result = None,
                     lt_output_file = None, lt_transcript_file = transcription\<rparr>"
    if "lt_model largs \<in> set [''tiny'', ''base'', ''small'', ''medium'', ''large'']"
      and "lt_task largs \<in> set [''summarize'', ''translate'', ''format'', ''analyze'']"
      and "path_exists' (lt_audio_file largs)"
      and "whisper (lt_model largs) (lt_audio_file largs) = Inr transcription"
      and "map_of prompts (lt_task largs) = Some prompt"
      and "run' [''claude'', ''-m'', ''claude-3-haiku-20240307'', prompt @ ''\<newline>\<newline>'' @ transcription] None
             = Inr result"
      and "returncode result \<noteq> 0"
  proof -
    from that(6,7) have "process_with_claude_lt run' transcription prompt = Inr None"
      by (simp add: process_with_claude_lt_def run_checked_def)
    with that(1-5) show ?thesis
      unfolding main_lt_def by simp
  qed
  from twg lt show ?thesis by blast
qed


lemma upper_summarize: "upper ''summarize'' = ''SUMMARIZE''"
  by code_simp

theorem fallback_is_fixed_per_script_witness:
  "''summarize'' \<in> set [''summarize'', ''translate'', ''analyze''] \<and>
   fst (transcribe_with_gemini (api_ok ''hello there'') (\<lambda>p. None) ''talk.mp3'' {})
     = Inr (Some ''hello there'') \<and>
   summarize_with_claude (run_exit 1 [] ''not logged in'') ''hello there'' ''summarize'' = Inr None \<and>
   main_twg (\<lambda>p. True) (api_ok ''hello there'') (\<lambda>p. None) (run_exit 1 [] ''not logged in'') {}
       \<lparr>twg_audio_file = ''talk.mp3'', twg_task = ''summarize'', twg_output = Some ''out.txt''\<rparr>
     = Completed
         \<lparr>twg_transcript = ''hello there'',
          twg_processed_text = ''hello there'',
          twg_output_content =
            ''=== ORIGINAL TRANSCRIPT ===\<newline>hello there\<newline>\<newline>=== CLAUDE SUMMARIZE ===\<newline>hello there'',
          twg_saved_to = Some ''out.txt''\<rparr> \<and>
   main_twg (\<lambda>p. True) (api_ok ''hello there'') (\<lambda>p. None) (run_exit 1 [] ''not logged in'') {}
       \<lparr>twg_audio_file = ''talk.mp3'', twg_task = ''summarize'', twg_output = Some []\<rparr>
     = Completed
         \<lparr>twg_transcript = ''hello there'',
          twg_processed_text = ''hello there'',
          twg_output_content =
            ''=== ORIGINAL TRANSCRIPT ===\<newline>hello there\<newline>\<newline>=== CLAUDE SUMMARIZE ===\<newline>hello there'',
          twg_saved_to = None\<rparr> \<and>
   map_of prompts ''summarize'' = Some ''Please provide a concise summary of this transcription:'' \<and>
   main_lt (\<lambda>p. True) (\<lambda>model file. Inr ''hello there'') (run_exit 1 [] ''not logged in'')
       \<lparr>lt_audio_file = ''talk.mp3'', lt_model = ''base'', lt_task = ''summarize'',
        lt_output = Some ''out.txt''\<rparr>
     = Completed \<lparr>lt_transcription = ''hello there'', lt_claude_result = None,
                  lt_output_file = None, lt_transcript_file = ''hello there''\<rparr>"
proof -
  let ?args = "\<lparr>twg_audio_file = ''talk.mp3'', twg_task = ''summarize'', twg_output = Some ''out.txt''\<rparr>"
  let ?args' = "\<lparr>twg_audio_file = ''talk.mp3'', twg_task = ''summarize'', twg_output = Some []\<rparr>"
  let ?largs = "\<lparr>lt_audio_file = ''talk.mp3'', lt_model = ''base'', lt_task = ''summarize'',
        lt_output = Some ''out.txt''\<rparr>"
  let ?run = "run_exit 1 [] ''not logged in''"
  let ?prompt = "''Please provide a concise summary of this transcription:''"
  note inst = fallback_is_fixed_per_script [of ?args "\<lambda>p. True" "api_ok ''hello there''" "\<lambda>p. None" "{}"
      "''hello there''" ?run ?largs "\<lambda>p. True" "\<lambda>model file. Inr ''hello there''" "''hello there''"
      ?prompt ?run "\<lparr>returncode = 1, stdout = [], stderr = ''not logged in''\<rparr>"]
  note inst' = fallback_is_fixed_per_script [of ?args' "\<lambda>p. True" "api_ok ''hello there''" "\<lambda>p. None" "{}"
      "''hello there''" ?run ?largs "\<lambda>p. True" "\<lambda>model file. Inr ''hello there''" "''hello there''"
      ?prompt ?run "\<lparr>returncode = 1, stdout = [], stderr = ''not logged in''\<rparr>"]
  have h1: "''summarize'' \<in> set [''summarize'', ''translate'', ''analyze'']"
    by simp
  have h2: "fst (transcribe_with_gemini (api_ok ''hello there'') (\<lambda>p. None) ''talk.mp3'' {})
     = Inr (Some ''hello there'')"
    by (simp add: transcribe_with_gemini_def transcribe_try_def api_ok_def)
  have h3: "summarize_with_claude ?run ''hello there'' ''summarize'' = Inr None"
    by (simp add: summarize_with_claude_def run_exit_def)
  have h4: "lt_model ?largs \<in> set [''tiny'', ''base'', ''small'', ''medium'', ''large'']"
    "lt_task ?largs \<in> set [''summarize'', ''translate'', ''format'', ''analyze'']"
    by simp_all
  have h5: "map_of prompts ''summarize'' = Some ?prompt"
    by (simp add: prompts_def)
  have h6: "?run [''claude'', ''-m'', ''claude-3-haiku-20240307'', ?prompt @ ''\<newline>\<newline>'' @ ''hello there''] None
      = Inr \<lparr>returncode = 1, stdout = [], stderr = ''not logged in''\<rparr>"
    "returncode \<lparr>returncode = 1, stdout = [], stderr = ''not logged in''\<rparr> \<noteq> 0"
    by (simp_all add: run_exit_def)
  from inst h1 h2 h3 have c1:
    "main_twg (\<lambda>p. True) (api_ok ''hello there'') (\<lambda>p. None) ?run {} ?args
     = Completed
         \<lparr>twg_transcript = ''hello there'',
          twg_processed_text = ''hello there'',
          twg_output_content =
            ''=== ORIGINAL TRANSCRIPT ===\<newline>hello there\<newline>\<newline>=== CLAUDE SUMMARIZE ===\<newline>hello there'',
          twg_saved_to = Some ''out.txt''\<rparr>"
    by (simp add: upper_summarize)
  from inst' h1 h2 h3 have c1':
    "main_twg (\<lambda>p. True) (api_ok ''hello there'') (\<lambda>p. None) ?run {} ?args'
     = Completed
         \<lparr>twg_transcript = ''hello there'',
          twg_processed_text = ''hello there'',
          twg_output_content =
            ''=== ORIGINAL TRANSCRIPT ===\<newline>hello there\<newline>\<newline>=== CLAUDE SUMMARIZE ===\<newline>hello there'',
          twg_saved_to = None\<rparr>"
    by (simp add: upper_summarize)
  from inst h4 h5 h6 have c2: "main_lt (\<lambda>p. True) (\<lambda>model file. Inr ''hello there'') ?run ?largs
     = Completed \<lparr>lt_transcription = ''hello there'', lt_claude_result = None,
                  lt_output_file = None, lt_transcript_file = ''hello there''\<rparr>"
    by simp
  from h1 h2 h3 c1 c1' h5 c2 show ?thesis by simp
qed

text \<open>
  The claim as stated fails: where the "omit" policy gives no processed text
  transcribe\_with\_gemini.py gives the transcript, where the "fall back" policy gives the
  transcript local\_transcribe.py gives nothing, and when the command-line tool is not
  installed the run of local\_transcribe.py ends with the exception.
\<close>

theorem fallback_policy_not_configurable:
  "(case main_twg (\<lambda>p. True) (api_ok ''hi'') (\<lambda>p. None) (run_exit 1 [] ''boom'') {}
           \<lparr>twg_audio_file = ''a.mp3'', twg_task = ''summarize'', twg_output = None\<rparr> of
      Completed r \<Rightarrow> Some (twg_processed_text r)
    | SysExit n \<Rightarrow> None
    | Raised e \<Rightarrow> None) = Some ''hi'' \<and>
   spec_processed_on_failure Omit ''hi'' = None \<and>
   main_lt (\<lambda>p. True) (\<lambda>model file. Inr ''hi'') (run_exit 1 [] ''boom'')
       \<lparr>lt_audio_file = ''a.mp3'', lt_model = ''base'', lt_task = ''summarize'',
        lt_output = Some ''out.txt''\<rparr>
     = Completed \<lparr>lt_transcription = ''hi'', lt_claude_result = None,
                  lt_output_file = None, lt_transcript_file = ''hi''\<rparr> \<and>
   spec_processed_on_failure FallBackToTranscript ''hi'' = Some ''hi'' \<and>
   main_lt (\<lambda>p. True) (\<lambda>model file. Inr ''hi'') run_missing
       \<lparr>lt_audio_file = ''a.mp3'', lt_model = ''base'', lt_task = ''summarize'',
        lt_output = Some ''out.txt''\<rparr>
     = Raised (Exn FileNotFoundError ''claude'')"
proof -
  have a: "fst (transcribe_with_gemini (api_ok ''hi'') (\<lambda>p. None) ''a.mp3'' {}) = Inr (Some ''hi'')"
    by (simp add: transcribe_with_gemini_def transcribe_try_def api_ok_def)
  have b: "summarize_with_claude (run_exit 1 [] ''boom'') ''hi'' ''summarize'' = Inr None"
    by (simp add: summarize_with_claude_def run_exit_def)
  have c: "process_with_claude_lt (run_exit 1 [] ''boom'') ''hi'' p = Inr None" for p
    by (simp add: process_with_claude_lt_def run_checked_def run_exit_def)
  have d: "process_with_claude_lt run_missing ''hi'' p = Inl (Exn FileNotFoundError ''claude'')" for p
    by (simp add: process_with_claude_lt_def run_checked_def run_missing_def)
  show ?thesis
    by (simp add: main_twg_def main_lt_def a b c d prompts_def spec_processed_on_failure_def Let_def)
qed

subsection \<open>Local transcription\<close>

lemma fold_quick:
  "fold (\<lambda>segment transcription. transcription @ [seg_text segment]) segments acc =
     acc @ map seg_text segments"
  by (induction segments arbitrary: acc) simp_all

lemma fold_yta:
  "fst (fold (\<lambda>segment (transcription, segment_count, calls).
           (transcription @ [strip (seg_text segment)],
            segment_count + 1,
            if has_callback \<and> (segment_count + 1) mod 5 = 0
            then calls @ [(segment_count + 1, seg_end segment)] else calls))
     segments (tr, n, cs)) = tr @ map (\<lambda>s. strip (seg_text s)) segments \<and>
   fst (snd (fold (\<lambda>segment (transcription, segment_count, calls).
           (transcription @ [strip (seg_text segment)],
            segment_count + 1,
            if has_callback \<and> (segment_count + 1) mod 5 = 0
            then calls @ [(segment_count + 1, seg_end segment)] else calls))
     segments (tr, n, cs))) = n + length segments"
  by (induction segments arbitrary: tr n cs) simp_all

lemma concat_spaced:
  "xs \<noteq> [] \<Longrightarrow> concat (map (\<lambda>x. x @ '' '') xs) = join '' '' xs @ '' ''"
  by (induction xs rule: induct_list012) simp_all

lemma strip_snoc_space:
  assumes "is_space c"
  shows "strip (x @ [c]) = strip x"
proof (cases "list_all is_space x")
  case True
  with assms have "list_all is_space (x @ [c])" by simp
  then have "strip (x @ [c]) = []" by (rule strip_blank)
  moreover from True have "strip x = []" by (rule strip_blank)
  ultimately show ?thesis by simp
next
  case False
  then have "\<exists>y\<in>set x. \<not> is_space y"
    by (simp add: list_all_iff)
  then have "dropWhile is_space (x @ [c]) = dropWhile is_space x @ [c]"
    by (metis dropWhile_append1)
  with assms show ?thesis
    by (simp add: strip_def)
qed

lemma strip_id:
  assumes "s \<noteq> []" "\<not> is_space (hd s)" "\<not> is_space (last s)"
  shows "strip s = s"
proof -
  from assms(1,2) have a: "dropWhile is_space s = s"
    by (cases s) simp_all
  from assms(1,3) have b: "dropWhile is_space (rev s) = rev s"
    by (cases "rev s") (simp_all add: last_rev [symmetric] del: last_rev)
  show ?thesis
    unfolding strip_def a b by simp
qed


lemma join_nonempty:
  "xs \<noteq> [] \<Longrightarrow> list_all (\<lambda>x. x \<noteq> []) xs \<Longrightarrow>
   join sep xs \<noteq> [] \<and> hd (join sep xs) = hd (hd xs) \<and> last (join sep xs) = last (last xs)"
  by (induction xs rule: induct_list012) auto

lemma doubled_space_append:
  "doubled_space (a @ b) \<longleftrightarrow>
     doubled_space a \<or> doubled_space b \<or>
     (a \<noteq> [] \<and> b \<noteq> [] \<and> last a = CHR '' '' \<and> hd b = CHR '' '')"
proof (induction a rule: doubled_space.induct)
  case (1 c d r)
  then show ?case by auto
next
  case (2 c)
  then show ?case by (cases b) auto
next
  case 3
  then show ?case by simp
qed

lemma doubled_space_Cons:
  "doubled_space (c # s) \<longleftrightarrow>
     (s \<noteq> [] \<and> c = CHR '' '' \<and> hd s = CHR '' '') \<or> doubled_space s"
  by (cases s) auto

lemma join_doubled_space:
  "list_all (\<lambda>x. x \<noteq> [] \<and> hd x \<noteq> CHR '' '' \<and> last x \<noteq> CHR '' '') xs \<Longrightarrow>
   doubled_space (join '' '' xs) \<Longrightarrow> list_ex doubled_space xs"
proof (induction xs rule: induct_list012)
  case 1
  then show ?case by simp
next
  case (2 x)
  then show ?case by simp
next
  case (3 x y zs)
  from "3.prems"(1) have rest: "list_all (\<lambda>x. x \<noteq> [] \<and> hd x \<noteq> CHR '' '' \<and> last x \<noteq> CHR '' '') (y # zs)"
    by simp
  then have ne: "list_all (\<lambda>x. x \<noteq> []) (y # zs)"
    by (simp add: list_all_iff)
  from join_nonempty [OF _ ne, of "'' ''"] have j: "join '' '' (y # zs) \<noteq> []"
    "hd (join '' '' (y # zs)) = hd y"
    by simp_all
  from "3.prems"(1) have x: "x \<noteq> []" "last x \<noteq> CHR '' ''" and y: "hd y \<noteq> CHR '' ''"
    by simp_all
  have "doubled_space (x @ '' '' @ join '' '' (y # zs))"
    using "3.prems"(2) by simp
  then have "doubled_space x \<or> doubled_space ('' '' @ join '' '' (y # zs))"
    using x by (simp add: doubled_space_append [of x])
  then have "doubled_space x \<or> doubled_space (join '' '' (y # zs))"
    using j y by (auto simp add: doubled_space_Cons)
  then show ?case
    using "3.IH"(2) [OF rest] by auto
qed


text \<open>
  C5, as amended. For every finite sequence of segments, in emission order:
  \<open>transcribe_audio\<close> of quick\_transcribe.py returns exactly the segment texts joined by
  single spaces, and no language tag; \<open>transcribe_audio\<close> of
  transcribe\_and\_summarize.py returns that joined string with leading and trailing
  whitespace stripped, and no language tag; \<open>transcribe_audio\<close> of
  youtube\_transcribe\_app.py returns the whitespace-stripped segment texts joined by single
  spaces, together with the backend's detected-language tag and the number of segments.
  When every segment text is non-empty and has no leading or trailing whitespace, the
  three texts are the same string, the segment texts joined by single spaces; it has no
  leading or trailing whitespace, and a doubled space only where a segment text has one.
\<close>

theorem local_transcripts_joined:
  "transcribe_audio_quick segments = join '' '' (map seg_text segments) \<and>
   transcribe_audio_tas segments = strip (join '' '' (map seg_text segments)) \<and>
   fst (transcribe_audio_yta segments info has_callback)
     = (join '' '' (map (\<lambda>s. strip (seg_text s)) segments), info_language info, length segments) \<and>
   (list_all (\<lambda>s. seg_text s \<noteq> [] \<and> \<not> is_space (hd (seg_text s)) \<and> \<not> is_space (last (seg_text s)))
      segments
    \<longrightarrow> transcribe_audio_tas segments = join '' '' (map seg_text segments) \<and>
        fst (transcribe_audio_yta segments info has_callback)
          = (join '' '' (map seg_text segments), info_language info, length segments) \<and>
        (segments = [] \<or>
           \<not> is_space (hd (join '' '' (map seg_text segments))) \<and>
           \<not> is_space (last (join '' '' (map seg_text segments)))) \<and>
        (doubled_space (join '' '' (map seg_text segments))
           \<longrightarrow> list_ex (\<lambda>s. doubled_space (seg_text s)) segments))"
proof -
  let ?texts = "map seg_text segments"
  have quick: "transcribe_audio_quick segments = join '' '' ?texts"
    by (simp add: transcribe_audio_quick_def fold_quick)
  have tas: "transcribe_audio_tas segments = strip (join '' '' ?texts)"
  proof (cases "segments = []")
    case True
    then show ?thesis by (simp add: transcribe_audio_tas_def)
  next
    case False
    then have "concat (map (\<lambda>s. seg_text s @ '' '') segments) = join '' '' ?texts @ '' ''"
      using concat_spaced [of ?texts] by (simp add: comp_def)
    then show ?thesis
      using strip_snoc_space [of "CHR '' ''" "join '' '' ?texts"]
      by (simp add: transcribe_audio_tas_def fold_tas)
  qed
  have yta: "fst (transcribe_audio_yta segments info has_callback)
     = (join '' '' (map (\<lambda>s. strip (seg_text s)) segments), info_language info, length segments)"
    using fold_yta [of has_callback segments "[]" 0 "[]"]
    by (simp add: transcribe_audio_yta_def case_prod_beta)
  have clean: "transcribe_audio_tas segments = join '' '' ?texts \<and>
        fst (transcribe_audio_yta segments info has_callback)
          = (join '' '' ?texts, info_language info, length segments) \<and>
        (segments = [] \<or>
           \<not> is_space (hd (join '' '' ?texts)) \<and> \<not> is_space (last (join '' '' ?texts))) \<and>
        (doubled_space (join '' '' ?texts) \<longrightarrow> list_ex (\<lambda>s. doubled_space (seg_text s)) segments)"
    if H: "list_all (\<lambda>s. seg_text s \<noteq> [] \<and> \<not> is_space (hd (seg_text s)) \<and> \<not> is_space (last (seg_text s)))
             segments"
  proof -
    from H have ne: "list_all (\<lambda>x. x \<noteq> []) ?texts"
      by (simp add: list_all_iff)
    from H have same: "map (\<lambda>s. strip (seg_text s)) segments = ?texts"
      by (simp add: list_all_iff strip_id)
    have ends: "\<not> is_space (hd (join '' '' ?texts)) \<and> \<not> is_space (last (join '' '' ?texts))"
      and nonempty: "join '' '' ?texts \<noteq> []" if "segments \<noteq> []"
    proof -
      from that have t: "?texts \<noteq> []" by simp
      from join_nonempty [OF t ne, of "'' ''"]
      have j: "join '' '' ?texts \<noteq> []" "hd (join '' '' ?texts) = hd (hd ?texts)"
        "last (join '' '' ?texts) = last (last ?texts)"
        by simp_all
      from that H have "\<not> is_space (hd (hd ?texts))"
        by (cases segments) simp_all
      moreover from that H have "\<not> is_space (last (last ?texts))"
        by (simp add: list_all_iff last_map)
      ultimately show "\<not> is_space (hd (join '' '' ?texts)) \<and> \<not> is_space (last (join '' '' ?texts))"
        using j by simp
      from j show "join '' '' ?texts \<noteq> []" by simp
    qed
    have tas': "transcribe_audio_tas segments = join '' '' ?texts"
    proof (cases "segments = []")
      case True
      then show ?thesis by (simp add: transcribe_audio_tas_def strip_def)
    next
      case False
      with ends nonempty tas show ?thesis
        by (simp add: strip_id)
    qed
    from H have "list_all (\<lambda>x. x \<noteq> [] \<and> hd x \<noteq> CHR '' '' \<and> last x \<noteq> CHR '' '') ?texts"
      by (auto simp add: list_all_iff)
    then have dbl: "doubled_space (join '' '' ?texts) \<longrightarrow> list_ex (\<lambda>s. doubled_space (seg_text s)) segments"
      using join_doubled_space [of ?texts] by (auto simp add: list_ex_iff)
    from tas' yta same ends dbl show ?thesis by auto
  qed
  from quick tas yta clean show ?thesis by blast
qed

theorem local_transcripts_joined_witness:
  "list_all (\<lambda>s. seg_text s \<noteq> [] \<and> \<not> is_space (hd (seg_text s)) \<and> \<not> is_space (last (seg_text s)))
     [\<lparr>seg_text = ''Hello'', seg_start = 0::nat, seg_end = 1\<rparr>,
      \<lparr>seg_text = ''world'', seg_start = 1, seg_end = 2\<rparr>] \<and>
   transcribe_audio_quick
     [\<lparr>seg_text = ''Hello'', seg_start = 0::nat, seg_end = 1\<rparr>,
      \<lparr>seg_text = ''world'', seg_start = 1, seg_end = 2\<rparr>] = ''Hello world'' \<and>
   transcribe_audio_tas
     [\<lparr>seg_text = ''Hello'', seg_start = 0::nat, seg_end = 1\<rparr>,
      \<lparr>seg_text = ''world'', seg_start = 1, seg_end = 2\<rparr>] = ''Hello world'' \<and>
   fst (transcribe_audio_yta
     [\<lparr>seg_text = ''Hello'', seg_start = 0::nat, seg_end = 1\<rparr>,
      \<lparr>seg_text = ''world'', seg_start = 1, seg_end = 2\<rparr>] \<lparr>info_language = ''en''\<rparr> True)
     = (''Hello world'', ''en'', 2)"
proof -
  let ?segs = "[\<lparr>seg_text = ''Hello'', seg_start = 0::nat, seg_end = 1\<rparr>,
      \<lparr>seg_text = ''world'', seg_start = 1, seg_end = 2\<rparr>]"
  note inst = local_transcripts_joined [of ?segs "\<lparr>info_language = ''en''\<rparr>" True]
  have H: "list_all (\<lambda>s. seg_text s \<noteq> [] \<and> \<not> is_space (hd (seg_text s)) \<and> \<not> is_space (last (seg_text s)))
     ?segs"
    by (simp add: is_space_def)
  have j: "join '' '' (map seg_text ?segs) = ''Hello world''"
    by simp
  from inst have q: "transcribe_audio_quick ?segs = ''Hello world''"
    unfolding j by blast
  from inst H have t: "transcribe_audio_tas ?segs = ''Hello world''"
    unfolding j by blast
  from inst H have "fst (transcribe_audio_yta ?segs \<lparr>info_language = ''en''\<rparr> True)
     = (join '' '' (map seg_text ?segs), info_language \<lparr>info_language = ''en''\<rparr>, length ?segs)"
    by blast
  then have y: "fst (transcribe_audio_yta ?segs \<lparr>info_language = ''en''\<rparr> True)
     = (''Hello world'', ''en'', 2)"
    by simp
  from H q t y show ?thesis by blast
qed

text \<open>
  The claim as stated fails on segments whose texts begin with a space, as the speech
  model emits them: one script returns a leading and a doubled space, one a doubled
  space, and the third does not return the segment texts themselves but their stripped
  forms.
\<close>

theorem local_transcripts_not_single_spaced:
  "join '' '' (map seg_text hello_world) = '' Hello  world'' \<and>
   transcribe_audio_quick hello_world = '' Hello  world'' \<and>
   transcribe_audio_tas hello_world = ''Hello  world'' \<and>
   fst (transcribe_audio_yta hello_world \<lparr>info_language = ''en''\<rparr> False) = (''Hello world'', ''en'', 2) \<and>
   doubled_space '' Hello  world'' \<and> doubled_space ''Hello  world'' \<and>
   is_space (hd '' Hello  world'')"
  by (simp add: hello_world_def transcribe_audio_quick_def transcribe_audio_tas_def
      transcribe_audio_yta_def strip_def is_space_def)

subsection \<open>Fetching\<close>

lemma replace_clip:
  "replace ''/home/u/downloads/clip.webm sample.webm'' ''.webm'' ''.m4a''
     = ''/home/u/downloads/clip.m4a sample.m4a''"
  by (simp add: replace_def)

lemma corrected_clip:
  "spec_corrected_extension ''/home/u/downloads/clip.webm sample.webm''
     = ''/home/u/downloads/clip.webm sample.m4a''"
  by code_simp

text \<open>
  C7. A successful fetch is to return a path that exists, and when the declared file
  name does not exist but the same name with its extension corrected from \<open>.webm\<close> to
  \<open>.m4a\<close> does, it is to return that corrected path. The code corrects with
  \<open>str.replace\<close>, which rewrites every \<open>.webm\<close> in the path and not the extension
  alone: for the video titled \<open>clip.webm sample\<close> the file
  \<open>clip.webm sample.m4a\<close> is on disk, the code looks for \<open>clip.m4a sample.m4a\<close>, and
  the fetch fails, in gemini\_claude\_app.py and in youtube\_downloader.py alike.
\<close>

theorem corrected_name_missed_when_title_holds_webm:
  "spec_corrected_extension ''/home/u/downloads/clip.webm sample.webm''
     = ''/home/u/downloads/clip.webm sample.m4a'' \<and>
   ''/home/u/downloads/clip.webm sample.m4a''
     \<in> snd (download_youtube_audio makedirs_ok ydl_clip ''/home/u'' ''https://youtu.be/x'' {}) \<and>
   fst (download_youtube_audio makedirs_ok ydl_clip ''/home/u'' ''https://youtu.be/x'' {})
     = Inl (Exn OtherException ''Error: Failed to download audio'') \<and>
   ''/home/u/downloads/clip.webm sample.m4a''
     \<in> snd (download_audio makedirs_ok ydl_clip ''/home/u'' ''https://youtu.be/x'' {}) \<and>
   fst (download_audio makedirs_ok ydl_clip ''/home/u'' ''https://youtu.be/x'' {})
     = Inl (Exn OtherException ''Error: Failed to download audio'')"
  by (simp add: corrected_clip download_youtube_audio_def download_audio_def ydl_clip_def
      makedirs_ok_def replace_clip path_join_def Let_def)

text \<open>
  The rest of the claim holds of the code: a path that is returned exists; when the
  declared name is missing and the name that \<open>replace\<close> gives exists, that name is
  returned; when neither exists the fetch fails. For the video titled \<open>talk\<close>,
  whose declared name holds \<open>.webm\<close> as its extension only, the corrected name is
  returned. An exception of \<open>os.makedirs\<close> reaches the caller unchanged.
\<close>

lemma download_probes_replaced_name_general:
  assumes "makedirs (path_join cwd ''downloads'') fs = Inr fs0"
    and "extract_info yt (path_join (path_join cwd ''downloads'') ''%(title)s.%(ext)s'')
             youtube_url fs0 = Inr (info, fs1)"
    and "prepare_filename yt (path_join (path_join cwd ''downloads'') ''%(title)s.%(ext)s'') info
           = declared"
    and "declared \<notin> fs1"
  shows "replace declared ''.webm'' ''.m4a'' \<in> fs1 \<Longrightarrow>
           \<exists>video_title duration.
             download_youtube_audio makedirs yt cwd youtube_url fs
               = (Inr (replace declared ''.webm'' ''.m4a'', video_title, duration), fs1)"
    and "replace declared ''.webm'' ''.m4a'' \<notin> fs1 \<Longrightarrow>
           download_youtube_audio makedirs yt cwd youtube_url fs
             = (Inl (Exn OtherException ''Error: Failed to download audio''), fs1)"
  using assms by (simp_all add: download_youtube_audio_def Let_def)

lemma download_returns_existing_path:
  "download_youtube_audio makedirs yt cwd youtube_url fs = (Inr (filename, video_title, duration), fs')
   \<Longrightarrow> filename \<in> fs'"
  by (auto simp add: download_youtube_audio_def Let_def split: sum.splits prod.splits if_splits)

lemma download_audio_returns_existing_path:
  "download_audio makedirs yt cwd youtube_url fs = (Inr (filename, video_title, duration), fs')
   \<Longrightarrow> filename \<in> fs'"
  by (auto simp add: download_audio_def Let_def split: sum.splits prod.splits if_splits)

lemma download_probes_replaced_name:
  "download_youtube_audio makedirs_ok ydl_talk ''/home/u'' ''https://youtu.be/x'' {}
     = (Inr (''/home/u/downloads/talk.m4a'', ''talk'', Some (PyInt 12)),
        {''/home/u/downloads/talk.m4a'', ''/home/u/downloads''})"
  by (simp add: download_youtube_audio_def ydl_talk_def makedirs_ok_def replace_def path_join_def
      Let_def suffix_to_prefix insert_commute)

lemma download_makedirs_raises:
  "download_youtube_audio makedirs_blocked yt ''/home/u'' youtube_url fs
     = (Inl (Exn OtherException ''[Errno 17] File exists: /home/u/downloads''), fs)"
  "download_audio makedirs_blocked yt ''/home/u'' youtube_url fs
     = (Inl (Exn OtherException ''[Errno 17] File exists: /home/u/downloads''), fs)"
  by (simp_all add: download_youtube_audio_def download_audio_def makedirs_blocked_def
      path_join_def Let_def suffix_to_prefix)

end
